theory Spec2Isabelle
  imports Complex_Main "HOL-Library.Multiset"
begin

section \<open>Mini e-commerce backend: data model\<close>

text \<open>
  The program is a FastAPI application (\<^verbatim>\<open>main.py\<close>) over three MongoDB collections,
  \<^verbatim>\<open>user\<close>, \<^verbatim>\<open>product\<close> and \<^verbatim>\<open>order\<close>, whose documents follow the Pydantic models of
  \<^verbatim>\<open>schemas.py\<close>.

  Modelling decisions.
  \<^item> A collection is the list of its documents in insertion order (the order in which
    \<^verbatim>\<open>find\<close> and \<^verbatim>\<open>find_one\<close> scan it); the three collections form the record \<open>store\<close>.
    Every handler takes the store and returns the store it leaves behind together with
    either the exception it raises (\<open>Inl\<close>) or the dictionary it returns (\<open>Inr\<close>).
  \<^item> A BSON ObjectId is represented by its 24-digit lower-case hexadecimal string, so
    Python's \<^verbatim>\<open>str(oid)\<close> is the identity \<open>str_oid\<close> and \<^verbatim>\<open>ObjectId(s)\<close> is \<open>ObjectId\<close> below.
  \<^item> A Python \<^verbatim>\<open>float\<close> is a value of \<open>pyfloat\<close>: a finite number, an infinity or
    NaN. The comparisons are defined on these values; the arithmetic that produces them
    (the rounding of each operation, and the algorithm of the built-in \<^verbatim>\<open>sum\<close>, which
    differs between versions of the interpreter) is not in the source and is supplied
    by the environment. Python \<^verbatim>\<open>int\<close> is \<open>int\<close>; timestamps are \<open>int\<close>.
  \<^item> Strings are \<open>string\<close>; record fields carry a prefix (\<open>u_\<close>, \<open>p_\<close>, \<open>o_\<close>, \<open>i_\<close>)
    because several documents share field names.
  \<^item> What the environment supplies is a parameter of the handler that uses it: the
    digest function \<^verbatim>\<open>hashlib.sha256(..).hexdigest()\<close>, the value of
    \<^verbatim>\<open>secrets.token_hex(16)\<close>, the identifier the database gives a new document, the
    clock, the floating-point arithmetic and the regular-expression matching of the
    database.
\<close>

type_synonym objectid = string

text \<open>
  The values of a Python \<^verbatim>\<open>float\<close>. Both zeros are \<open>Finite 0\<close>. \<open>float_ge0\<close> is
  \<^verbatim>\<open>x >= 0\<close> (false for NaN), the test behind the constraint \<^verbatim>\<open>ge=0\<close>;
  \<open>float_negative\<close> is \<^verbatim>\<open>x < 0\<close>.
\<close>

datatype pyfloat = Finite real | PosInf | NegInf | NaN

definition float_ge0 :: "pyfloat \<Rightarrow> bool" where
  "float_ge0 x = (case x of Finite r \<Rightarrow> 0 \<le> r | PosInf \<Rightarrow> True | NegInf \<Rightarrow> False | NaN \<Rightarrow> False)"

definition float_negative :: "pyfloat \<Rightarrow> bool" where
  "float_negative x = (case x of Finite r \<Rightarrow> r < 0 | PosInf \<Rightarrow> False | NegInf \<Rightarrow> True | NaN \<Rightarrow> False)"

definition str_oid :: "objectid \<Rightarrow> string" where
  "str_oid oid = oid"

text \<open>
  \<^verbatim>\<open>class User\<close>, \<^verbatim>\<open>class Product\<close>, \<^verbatim>\<open>class OrderItem\<close> and \<^verbatim>\<open>class Order\<close> of
  \<^verbatim>\<open>schemas.py\<close>. \<^verbatim>\<open>class ProductPayload\<close> of \<^verbatim>\<open>main.py\<close> has the fields of \<^verbatim>\<open>Product\<close>,
  so both are the record \<open>Product\<close>; only the constructor of \<^verbatim>\<open>Product\<close> checks the price
  (\<open>Product_validate\<close> below). A stored document is the model's fields extended by
  \<^verbatim>\<open>_id\<close> and the creation time.
\<close>

record User =
  u_name :: string
  u_email :: string
  u_password_hash :: string
  u_address :: "string option"
  u_is_admin :: bool
  u_token :: "string option"

record user_doc = User +
  u_id :: objectid
  u_created_at :: int

record Product =
  p_title :: string
  p_description :: "string option"
  p_price :: pyfloat
  p_category :: string
  p_image :: "string option"
  p_in_stock :: bool

record product_doc = Product +
  p_id :: objectid
  p_created_at :: int

record OrderItem =
  i_product_id :: string
  i_title :: string
  i_price :: pyfloat
  i_quantity :: int
  i_image :: "string option"

record Order =
  o_user_id :: "string option"
  o_name :: string
  o_address :: string
  o_payment_method :: string
  o_items :: "OrderItem list"
  o_total :: pyfloat
  o_status :: string

record order_doc = Order +
  o_id :: objectid
  o_created_at :: int

record store =
  users :: "user_doc list"
  products :: "product_doc list"
  orders :: "order_doc list"

text \<open>
  Exceptions. \<open>HTTPException\<close> carries the status code and the detail string;
  \<open>ValidationError\<close> is Pydantic's; \<open>IndexError\<close> and \<open>OverflowError\<close> are Python's;
  \<open>InvalidId\<close> is bson's; \<open>OperationFailure\<close> is what the database driver raises when
  the server rejects a query.
\<close>

datatype error =
    HTTPException nat string
  | ValidationError
  | IndexError
  | OverflowError
  | InvalidId
  | OperationFailure

subsection \<open>The MongoDB operations used by the handlers\<close>

text \<open>\<^verbatim>\<open>collection.find_one(query)\<close>: the first document that satisfies the query.\<close>

fun find_one :: "('a \<Rightarrow> bool) \<Rightarrow> 'a list \<Rightarrow> 'a option" where
  "find_one q [] = None"
| "find_one q (d # ds) = (if q d then Some d else find_one q ds)"

text \<open>
  \<^verbatim>\<open>collection.update_one(query, {"$set": ..})\<close>: the first document that satisfies the
  query is updated; the result is the new collection and \<^verbatim>\<open>matched_count\<close>.
\<close>

fun update_one :: "('a \<Rightarrow> bool) \<Rightarrow> ('a \<Rightarrow> 'a) \<Rightarrow> 'a list \<Rightarrow> 'a list \<times> nat" where
  "update_one q f [] = ([], 0)"
| "update_one q f (d # ds) =
     (if q d then (f d # ds, 1)
      else (case update_one q f ds of (ds', n) \<Rightarrow> (d # ds', n)))"

text \<open>\<^verbatim>\<open>collection.delete_one(query)\<close>: the new collection and \<^verbatim>\<open>deleted_count\<close>.\<close>

fun delete_one :: "('a \<Rightarrow> bool) \<Rightarrow> 'a list \<Rightarrow> 'a list \<times> nat" where
  "delete_one q [] = ([], 0)"
| "delete_one q (d # ds) =
     (if q d then (ds, 1)
      else (case delete_one q ds of (ds', n) \<Rightarrow> (d # ds', n)))"

text \<open>
  \<^verbatim>\<open>cursor.sort(key, -1)\<close>: descending by the key. (MongoDB leaves the order of documents
  with equal keys open; the model takes the reverse of the stable ascending sort.)
\<close>

definition sort_desc :: "('a \<Rightarrow> int) \<Rightarrow> 'a list \<Rightarrow> 'a list" where
  "sort_desc key ds = rev (sort_key key ds)"

subsection \<open>Python string and list operations used by the handlers\<close>

definition startswith :: "string \<Rightarrow> string \<Rightarrow> bool" where
  "startswith s p = (take (length p) s = p)"

text \<open>\<^verbatim>\<open>s.split(sep, 1)\<close> for a one-character separator.\<close>

definition split1 :: "char \<Rightarrow> string \<Rightarrow> string list" where
  "split1 sep s =
     (if sep \<in> set s
      then [takeWhile (\<lambda>c. c \<noteq> sep) s, tl (dropWhile (\<lambda>c. c \<noteq> sep) s)]
      else [s])"

text \<open>\<^verbatim>\<open>xs[i]\<close> for a non-negative index: \<^verbatim>\<open>IndexError\<close> out of range.\<close>

definition py_index :: "'a list \<Rightarrow> nat \<Rightarrow> error + 'a" where
  "py_index xs i = (if i < length xs then Inr (xs ! i) else Inl IndexError)"

section \<open>Authentication\<close>

text \<open>
  Every handler that reads the \<^verbatim>\<open>Authorization\<close> header starts with the same three lines
  (\<^verbatim>\<open>main.py\<close>, lines 131-133, 157-159, 171-173, 192-194, 213-215 and 232-234):
  \<^verbatim>\<open>
    token = None
    if authorization and authorization.startswith("Bearer "):
        token = authorization.split(" ", 1)[1]
  \<close>
\<close>

definition bearer_token :: "string option \<Rightarrow> error + string option" where
  "bearer_token authorization =
     (case authorization of
        None \<Rightarrow> Inr None
      | Some a \<Rightarrow>
          if a \<noteq> [] \<and> startswith a ''Bearer ''
          then (case py_index (split1 CHR '' '' a) 1 of
                  Inl e \<Rightarrow> Inl e
                | Inr t \<Rightarrow> Inr (Some t))
          else Inr None)"

text \<open>\<^verbatim>\<open>user_from_token\<close> (\<^verbatim>\<open>main.py\<close>, lines 28-34).\<close>

definition user_from_token :: "store \<Rightarrow> string option \<Rightarrow> user_doc option" where
  "user_from_token s token =
     (case token of
        None \<Rightarrow> None
      | Some t \<Rightarrow>
          if t = [] then None
          else (case find_one (\<lambda>u. u_token u = Some t) (users s) of
                  None \<Rightarrow> None
                | Some user \<Rightarrow> Some (user\<lparr>u_id := str_oid (u_id user)\<rparr>)))"

text \<open>The header lines followed by \<^verbatim>\<open>user = user_from_token(token)\<close>.\<close>

definition resolve :: "store \<Rightarrow> string option \<Rightarrow> error + user_doc option" where
  "resolve s authorization =
     (case bearer_token authorization of
        Inl e \<Rightarrow> Inl e
      | Inr token \<Rightarrow> Inr (user_from_token s token))"

section \<open>The environment and the models' constructors\<close>

text \<open>
  What a request reads from outside the program: \<open>sha256_hexdigest\<close> stands for
  \<^verbatim>\<open>hashlib.sha256(s.encode()).hexdigest()\<close>, \<open>token_hex\<close> for the value
  \<^verbatim>\<open>secrets.token_hex(16)\<close> returns in this request, \<open>inserted_id\<close> for the ObjectId
  the database gives the document inserted in this request, \<open>utcnow\<close> for the clock.

  \<open>float_mul x n\<close> is Python's \<^verbatim>\<open>x * n\<close> for a float and an int (the int is converted
  first, which raises \<^verbatim>\<open>OverflowError\<close> when it is too large), and \<open>float_sum xs\<close> is
  the built-in \<^verbatim>\<open>sum\<close> of floats, 0 for no floats.

  \<open>regex_i pattern\<close> is the database's \<^verbatim>\<open>{"$regex": pattern, "$options": "i"}\<close>:
  \<open>None\<close> when the server rejects the pattern, else the test it applies to a string
  field (the field has a match of the pattern, letters compared without case).
\<close>

record env =
  sha256_hexdigest :: "string \<Rightarrow> string"
  token_hex :: string
  inserted_id :: objectid
  utcnow :: int
  float_mul :: "pyfloat \<Rightarrow> int \<Rightarrow> error + pyfloat"
  float_sum :: "pyfloat list \<Rightarrow> pyfloat"
  regex_i :: "string \<Rightarrow> (string \<Rightarrow> bool) option"

text \<open>\<^verbatim>\<open>hash_password\<close> (\<^verbatim>\<open>main.py\<close>, lines 24-25).\<close>

definition hash_password :: "env \<Rightarrow> string \<Rightarrow> string" where
  "hash_password e password = sha256_hexdigest e password"

text \<open>
  The constraints of \<^verbatim>\<open>schemas.py\<close>: \<^verbatim>\<open>Product.price\<close> has \<^verbatim>\<open>ge=0\<close>,
  \<^verbatim>\<open>OrderItem.quantity\<close> has \<^verbatim>\<open>ge=1\<close> and \<^verbatim>\<open>OrderItem.price\<close> has no bound,
  \<^verbatim>\<open>Order.total\<close> has \<^verbatim>\<open>ge=0\<close>. \<^verbatim>\<open>User\<close> has none.
\<close>

definition Product_validate :: "Product \<Rightarrow> error + Product" where
  "Product_validate p = (if float_ge0 (p_price p) then Inr p else Inl ValidationError)"

definition OrderItem_validate :: "OrderItem \<Rightarrow> error + OrderItem" where
  "OrderItem_validate i = (if 1 \<le> i_quantity i then Inr i else Inl ValidationError)"

definition Order_validate :: "Order \<Rightarrow> error + Order" where
  "Order_validate ord = (if float_ge0 (o_total ord) then Inr ord else Inl ValidationError)"

text \<open>
  The request bodies of \<^verbatim>\<open>main.py\<close>, lines 37-61. The framework builds them from the
  JSON body before the handler runs; a body it rejects never reaches the handler.
\<close>

record SignupPayload =
  s_name :: string
  s_email :: string
  s_password :: string

record LoginPayload =
  l_email :: string
  l_password :: string

record CheckoutPayload =
  c_name :: string
  c_address :: string
  c_payment_method :: string
  c_items :: "OrderItem list"

text \<open>
  The JSON body of a product request: \<open>None\<close> is a key the body leaves out.
  \<open>ProductPayload\<close> fills in the defaults of \<^verbatim>\<open>class ProductPayload\<close>
  (\<^verbatim>\<open>description = None\<close>, \<^verbatim>\<open>image = None\<close>, \<^verbatim>\<open>in_stock = True\<close>).
\<close>

record product_body =
  b_title :: string
  b_description :: "string option"
  b_price :: pyfloat
  b_category :: string
  b_image :: "string option"
  b_in_stock :: "bool option"

definition ProductPayload :: "product_body \<Rightarrow> Product" where
  "ProductPayload b =
     \<lparr>p_title = b_title b,
      p_description = b_description b,
      p_price = b_price b,
      p_category = b_category b,
      p_image = b_image b,
      p_in_stock = (case b_in_stock b of None \<Rightarrow> True | Some v \<Rightarrow> v)\<rparr>"

text \<open>A request body the framework accepts for \<^verbatim>\<open>CheckoutPayload\<close>.\<close>

definition CheckoutPayload_ok :: "CheckoutPayload \<Rightarrow> bool" where
  "CheckoutPayload_ok payload = list_all (\<lambda>i. OrderItem_validate i = Inr i) (c_items payload)"

text \<open>
  \<^verbatim>\<open>ObjectId(s)\<close> for a string: 24 hexadecimal digits, else \<^verbatim>\<open>InvalidId\<close>.
\<close>

definition lower_char :: "char \<Rightarrow> char" where
  "lower_char c =
     (case map_of (zip ''ABCDEFGHIJKLMNOPQRSTUVWXYZ'' ''abcdefghijklmnopqrstuvwxyz'') c of
        None \<Rightarrow> c
      | Some l \<Rightarrow> l)"

definition is_hex_digit :: "char \<Rightarrow> bool" where
  "is_hex_digit c = (c \<in> set ''0123456789abcdefABCDEF'')"

definition ObjectId :: "string \<Rightarrow> error + objectid" where
  "ObjectId s =
     (if length s = 24 \<and> list_all is_hex_digit s then Inr (map lower_char s)
      else Inl InvalidId)"

subsection \<open>Inserting a document\<close>

text \<open>
  Modelled from the spec: \<^verbatim>\<open>create_document\<close> of the repository's \<^verbatim>\<open>database\<close> module,
  which is not among the source files. The spec has signup "store a new User", checkout
  "persist" the order and return its id, order listing order "by creation time", and
  all identifiers "externalized as their string representation": the model's fields
  are appended to the collection under the new identifier with the time of insertion,
  and the identifier is returned as a string. One definition per collection, since the
  collections hold documents of different types.
\<close>

definition create_document_user :: "env \<Rightarrow> User \<Rightarrow> store \<Rightarrow> store \<times> string" where
  "create_document_user e data s =
     (s\<lparr>users := users s @
          [\<lparr>u_name = u_name data, u_email = u_email data,
            u_password_hash = u_password_hash data, u_address = u_address data,
            u_is_admin = u_is_admin data, u_token = u_token data,
            u_id = inserted_id e, u_created_at = utcnow e\<rparr>]\<rparr>,
      str_oid (inserted_id e))"

text \<open>
  Modelled from the spec: \<^verbatim>\<open>create_document\<close> (absent from the source files), called
  with the collection \<^verbatim>\<open>product\<close>.
\<close>

definition create_document_product :: "env \<Rightarrow> Product \<Rightarrow> store \<Rightarrow> store \<times> string" where
  "create_document_product e data s =
     (s\<lparr>products := products s @
          [\<lparr>p_title = p_title data, p_description = p_description data,
            p_price = p_price data, p_category = p_category data,
            p_image = p_image data, p_in_stock = p_in_stock data,
            p_id = inserted_id e, p_created_at = utcnow e\<rparr>]\<rparr>,
      str_oid (inserted_id e))"

text \<open>
  Modelled from the spec: \<^verbatim>\<open>create_document\<close> (absent from the source files), called
  with the collection \<^verbatim>\<open>order\<close>.
\<close>

definition create_document_order :: "env \<Rightarrow> Order \<Rightarrow> store \<Rightarrow> store \<times> string" where
  "create_document_order e data s =
     (s\<lparr>orders := orders s @
          [\<lparr>o_user_id = o_user_id data, o_name = o_name data,
            o_address = o_address data, o_payment_method = o_payment_method data,
            o_items = o_items data, o_total = o_total data, o_status = o_status data,
            o_id = inserted_id e, o_created_at = utcnow e\<rparr>]\<rparr>,
      str_oid (inserted_id e))"

section \<open>The handlers\<close>

text \<open>The dictionaries the handlers return.\<close>

datatype response =
    SignupOk string
  | LoginOk string string bool
  | MeOk string string bool
  | ProductList "product_doc list"
  | ProductCreated string
  | Updated
  | Deleted
  | OrderCreated string pyfloat
  | OrderList "order_doc list"

type_synonym result = "store \<times> (error + response)"

subsection \<open>Signup, login, me\<close>

text \<open>\<^verbatim>\<open>signup\<close> (\<^verbatim>\<open>main.py\<close>, lines 101-116).\<close>

definition signup :: "env \<Rightarrow> store \<Rightarrow> SignupPayload \<Rightarrow> result" where
  "signup e s payload =
     (case find_one (\<lambda>u. u_email u = s_email payload) (users s) of
        Some existing \<Rightarrow> (s, Inl (HTTPException 400 ''Email already registered''))
      | None \<Rightarrow>
          let new_user =
                \<lparr>u_name = s_name payload,
                 u_email = s_email payload,
                 u_password_hash = hash_password e (s_password payload),
                 u_address = None,
                 u_is_admin = False,
                 u_token = None\<rparr>
          in (case create_document_user e new_user s of
                (s', user_id) \<Rightarrow> (s', Inr (SignupOk user_id))))"

text \<open>\<^verbatim>\<open>login\<close> (\<^verbatim>\<open>main.py\<close>, lines 119-126).\<close>

definition login :: "env \<Rightarrow> store \<Rightarrow> LoginPayload \<Rightarrow> result" where
  "login e s payload =
     (case find_one (\<lambda>u. u_email u = l_email payload) (users s) of
        None \<Rightarrow> (s, Inl (HTTPException 401 ''Invalid credentials''))
      | Some user \<Rightarrow>
          if u_password_hash user \<noteq> hash_password e (l_password payload)
          then (s, Inl (HTTPException 401 ''Invalid credentials''))
          else
            let token = token_hex e;
                (us, matched) = update_one (\<lambda>u. u_id u = u_id user)
                                  (\<lambda>u. u\<lparr>u_token := Some token\<rparr>) (users s)
            in (s\<lparr>users := us\<rparr>, Inr (LoginOk token (u_name user) (u_is_admin user))))"


subsection \<open>The catalog\<close>


text \<open>
  The gate of the three product-writing handlers:
  \<^verbatim>\<open>if not user or not user.get("is_admin", False)\<close>.
\<close>

definition not_admin :: "user_doc option \<Rightarrow> bool" where
  "not_admin user = (case user of None \<Rightarrow> True | Some u \<Rightarrow> \<not> u_is_admin u)"

text \<open>\<^verbatim>\<open>create_product\<close> (\<^verbatim>\<open>main.py\<close>, lines 155-166).\<close>

definition create_product :: "env \<Rightarrow> store \<Rightarrow> Product \<Rightarrow> string option \<Rightarrow> result" where
  "create_product e s payload authorization =
     (case resolve s authorization of
        Inl ex \<Rightarrow> (s, Inl ex)
      | Inr user \<Rightarrow>
          if not_admin user then (s, Inl (HTTPException 403 ''Admin only''))
          else
            (case Product_validate payload of
               Inl ex \<Rightarrow> (s, Inl ex)
             | Inr product \<Rightarrow>
                 (case create_document_product e product s of
                    (s', product_id) \<Rightarrow> (s', Inr (ProductCreated product_id)))))"

text \<open>\<^verbatim>\<open>update_product\<close> (\<^verbatim>\<open>main.py\<close>, lines 169-187).\<close>

definition update_product :: "store \<Rightarrow> string \<Rightarrow> Product \<Rightarrow> string option \<Rightarrow> result" where
  "update_product s product_id payload authorization =
     (case resolve s authorization of
        Inl ex \<Rightarrow> (s, Inl ex)
      | Inr user \<Rightarrow>
          if not_admin user then (s, Inl (HTTPException 403 ''Admin only''))
          else
            (case ObjectId product_id of
               Inl ex \<Rightarrow> (s, Inl (HTTPException 400 ''Invalid product id''))
             | Inr oid \<Rightarrow>
                 let (ps, matched_count) =
                       update_one (\<lambda>p. p_id p = oid)
                         (\<lambda>p. p\<lparr>p_title := p_title payload,
                                p_description := p_description payload,
                                p_price := p_price payload,
                                p_category := p_category payload,
                                p_image := p_image payload,
                                p_in_stock := p_in_stock payload\<rparr>)
                         (products s)
                 in if matched_count = 0
                    then (s\<lparr>products := ps\<rparr>, Inl (HTTPException 404 ''Product not found''))
                    else (s\<lparr>products := ps\<rparr>, Inr Updated)))"

text \<open>\<^verbatim>\<open>delete_product\<close> (\<^verbatim>\<open>main.py\<close>, lines 190-207).\<close>

definition delete_product :: "store \<Rightarrow> string \<Rightarrow> string option \<Rightarrow> result" where
  "delete_product s product_id authorization =
     (case resolve s authorization of
        Inl ex \<Rightarrow> (s, Inl ex)
      | Inr user \<Rightarrow>
          if not_admin user then (s, Inl (HTTPException 403 ''Admin only''))
          else
            (case ObjectId product_id of
               Inl ex \<Rightarrow> (s, Inl (HTTPException 400 ''Invalid product id''))
             | Inr oid \<Rightarrow>
                 let (ps, deleted_count) = delete_one (\<lambda>p. p_id p = oid) (products s)
                 in if deleted_count = 0
                    then (s\<lparr>products := ps\<rparr>, Inl (HTTPException 404 ''Product not found''))
                    else (s\<lparr>products := ps\<rparr>, Inr Deleted)))"

subsection \<open>Orders\<close>

text \<open>
  \<^verbatim>\<open>sum(item.price * item.quantity for item in payload.items)\<close>: the products in the
  order of the items, the first exception ending the evaluation, then their sum.
\<close>

fun line_totals :: "env \<Rightarrow> OrderItem list \<Rightarrow> error + pyfloat list" where
  "line_totals e [] = Inr []"
| "line_totals e (item # items) =
     (case float_mul e (i_price item) (i_quantity item) of
        Inl ex \<Rightarrow> Inl ex
      | Inr x \<Rightarrow>
          (case line_totals e items of
             Inl ex \<Rightarrow> Inl ex
           | Inr xs \<Rightarrow> Inr (x # xs)))"

definition order_total :: "env \<Rightarrow> OrderItem list \<Rightarrow> error + pyfloat" where
  "order_total e items =
     (case line_totals e items of
        Inl ex \<Rightarrow> Inl ex
      | Inr xs \<Rightarrow> Inr (float_sum e xs))"

text \<open>\<^verbatim>\<open>create_order\<close> (\<^verbatim>\<open>main.py\<close>, lines 211-227).\<close>

definition create_order :: "env \<Rightarrow> store \<Rightarrow> CheckoutPayload \<Rightarrow> string option \<Rightarrow> result" where
  "create_order e s payload authorization =
     (case resolve s authorization of
        Inl ex \<Rightarrow> (s, Inl ex)
      | Inr user \<Rightarrow>
          (case order_total e (c_items payload) of
             Inl ex \<Rightarrow> (s, Inl ex)
           | Inr tot \<Rightarrow>
               (case Order_validate
                       \<lparr>o_user_id = (case user of Some u \<Rightarrow> Some (u_id u) | None \<Rightarrow> None),
                        o_name = c_name payload,
                        o_address = c_address payload,
                        o_payment_method = c_payment_method payload,
                        o_items = c_items payload,
                        o_total = tot,
                        o_status = ''pending''\<rparr> of
                  Inl ex \<Rightarrow> (s, Inl ex)
                | Inr ord \<Rightarrow>
                    (case create_document_order e ord s of
                       (s', order_id) \<Rightarrow> (s', Inr (OrderCreated order_id tot))))))"

text \<open>\<^verbatim>\<open>list_orders\<close> (\<^verbatim>\<open>main.py\<close>, lines 230-244).\<close>

definition list_orders :: "store \<Rightarrow> string option \<Rightarrow> result" where
  "list_orders s authorization =
     (case resolve s authorization of
        Inl ex \<Rightarrow> (s, Inl ex)
      | Inr None \<Rightarrow> (s, Inl (HTTPException 401 ''Unauthorized''))
      | Inr (Some user) \<Rightarrow>
          let query = (if \<not> u_is_admin user
                       then (\<lambda>ord. o_user_id ord = Some (u_id user))
                       else (\<lambda>ord. True));
              found = sort_desc o_created_at (filter query (orders s))
          in (s, Inr (OrderList (map (\<lambda>ord. ord\<lparr>o_id := str_oid (o_id ord)\<rparr>) found))))"

section \<open>Notions of the specification\<close>

text \<open>
  The specification's "case-insensitive substring": \<^verbatim>\<open>q.lower() in v.lower()\<close>.
  \<open>contains q v\<close> holds when \<open>q\<close> occurs in \<open>v\<close> as a block of consecutive elements.
\<close>

fun contains :: "'a list \<Rightarrow> 'a list \<Rightarrow> bool" where
  "contains q [] = (q = [])"
| "contains q (c # cs) = (take (length q) (c # cs) = q \<or> contains q cs)"


text \<open>The tokens held by the user records, in the order of the records.\<close>

definition tokens_of :: "user_doc list \<Rightarrow> string list" where
  "tokens_of us = concat (map (\<lambda>u. case u_token u of None \<Rightarrow> [] | Some t \<Rightarrow> [t]) us)"

text \<open>
  The invariant of the user collection: the database keeps \<^verbatim>\<open>_id\<close> unique, signup keeps
  the emails unique, and no two records hold the same token.
\<close>

definition users_ok :: "store \<Rightarrow> bool" where
  "users_ok s =
     (distinct (map u_id (users s)) \<and> distinct (map u_email (users s))
      \<and> distinct (tokens_of (users s)))"

text \<open>A token is fresh when no user record holds it.\<close>

definition fresh_token :: "store \<Rightarrow> string \<Rightarrow> bool" where
  "fresh_token s t = (t \<notin> set (tokens_of (users s)))"

text \<open>Newest first: creation times never increase along the list.\<close>

definition newest_first :: "order_doc list \<Rightarrow> bool" where
  "newest_first os = sorted_wrt (\<lambda>a b. o_created_at b \<le> o_created_at a) os"

section \<open>Example data\<close>

text \<open>
  An arithmetic for the examples: the exact product and the exact sum, which is what
  binary floating point computes whenever the exact result is a float, as it is for
  the small whole numbers of the examples.
\<close>

definition exact_mul :: "pyfloat \<Rightarrow> int \<Rightarrow> error + pyfloat" where
  "exact_mul x n =
     (case x of
        Finite r \<Rightarrow> Inr (Finite (r * real_of_int n))
      | PosInf \<Rightarrow> Inr (if n = 0 then NaN else if 0 < n then PosInf else NegInf)
      | NegInf \<Rightarrow> Inr (if n = 0 then NaN else if 0 < n then NegInf else PosInf)
      | NaN \<Rightarrow> Inr NaN)"

fun exact_add :: "pyfloat \<Rightarrow> pyfloat \<Rightarrow> pyfloat" where
  "exact_add (Finite a) (Finite b) = Finite (a + b)"
| "exact_add NaN y = NaN"
| "exact_add x NaN = NaN"
| "exact_add PosInf NegInf = NaN"
| "exact_add NegInf PosInf = NaN"
| "exact_add PosInf y = PosInf"
| "exact_add x PosInf = PosInf"
| "exact_add NegInf y = NegInf"
| "exact_add x NegInf = NegInf"

definition exact_sum :: "pyfloat list \<Rightarrow> pyfloat" where
  "exact_sum xs = foldl exact_add (Finite 0) xs"

text \<open>
  A matcher for the examples: it implements the ordinary characters of the
  regular-expression syntax, each matching itself without regard to case (of the ASCII
  letters), and the wildcard \<^verbatim>\<open>.\<close>, any character but a newline, and it rejects a
  pattern with any other character of the syntax. On the patterns of the examples it
  matches as the database does.
\<close>

definition regex_meta :: "char \<Rightarrow> bool" where
  "regex_meta c = (c \<in> set (CHR 0x5C # ''^$.[]|()?*+{}''))"

definition atom_matches :: "char \<Rightarrow> char \<Rightarrow> bool" where
  "atom_matches pc c =
     (if pc = CHR ''.'' then c \<noteq> CHR 0x0A else lower_char pc = lower_char c)"

fun match_here :: "string \<Rightarrow> string \<Rightarrow> bool" where
  "match_here [] cs = True"
| "match_here (pc # ps) [] = False"
| "match_here (pc # ps) (c # cs) = (atom_matches pc c \<and> match_here ps cs)"

fun match_anywhere :: "string \<Rightarrow> string \<Rightarrow> bool" where
  "match_anywhere p [] = match_here p []"
| "match_anywhere p (c # cs) = (match_here p (c # cs) \<or> match_anywhere p cs)"

definition wildcard_regex :: "string \<Rightarrow> (string \<Rightarrow> bool) option" where
  "wildcard_regex pattern =
     (if list_all (\<lambda>c. c = CHR ''.'' \<or> \<not> regex_meta c) pattern
      then Some (match_anywhere pattern)
      else None)"

text \<open>
  A small store used to evaluate the handlers: Ann is an ordinary user, Bob an
  administrator; the stand-in digest prefixes the password with \<open>h:\<close>. In \<open>env_again\<close>
  the token generator returns the token that Ann already holds.
\<close>

definition ann :: user_doc where
  "ann = \<lparr>u_name = ''Ann'', u_email = ''ann@x.com'', u_password_hash = ''h:pw1'',
          u_address = None, u_is_admin = False, u_token = Some ''t1'',
          u_id = ''a1'', u_created_at = 1\<rparr>"

definition bob :: user_doc where
  "bob = \<lparr>u_name = ''Bob'', u_email = ''bob@x.com'', u_password_hash = ''h:pw2'',
          u_address = None, u_is_admin = True, u_token = Some ''t2'',
          u_id = ''b1'', u_created_at = 2\<rparr>"

definition env0 :: env where
  "env0 = \<lparr>sha256_hexdigest = (\<lambda>pw. ''h:'' @ pw), token_hex = ''t9'',
           inserted_id = ''c1'', utcnow = 50,
           float_mul = exact_mul, float_sum = exact_sum, regex_i = wildcard_regex\<rparr>"


definition lamp :: product_doc where
  "lamp = \<lparr>p_title = ''Lumos Desk Lamp'', p_description = Some ''Minimal'',
           p_price = Finite 49.5, p_category = ''home'', p_image = Some ''lamp.png'',
           p_in_stock = False, p_id = ''aaaaaaaaaaaaaaaaaaaaaaa1'', p_created_at = 3\<rparr>"

definition bottle :: Product where
  "bottle = \<lparr>p_title = ''Flux Water Bottle'', p_description = None, p_price = Finite 24,
             p_category = ''outdoors'', p_image = None, p_in_stock = True\<rparr>"

definition store0 :: store where
  "store0 = \<lparr>users = [ann, bob], products = [lamp], orders = []\<rparr>"

definition carol :: SignupPayload where
  "carol = \<lparr>s_name = ''Carol'', s_email = ''carol@x.com'', s_password = ''pw3''\<rparr>"

definition ann_again :: SignupPayload where
  "ann_again = \<lparr>s_name = ''Ann B'', s_email = ''ann@x.com'', s_password = ''other''\<rparr>"

definition guest_cart :: CheckoutPayload where
  "guest_cart = \<lparr>c_name = ''Gil'', c_address = ''1 Main St'', c_payment_method = ''card'',
     c_items = [\<lparr>i_product_id = ''aaaaaaaaaaaaaaaaaaaaaaa1'', i_title = ''Lamp'', i_price = Finite 10,
                 i_quantity = 3, i_image = None\<rparr>]\<rparr>"

definition refund_cart :: CheckoutPayload where
  "refund_cart = \<lparr>c_name = ''Gil'', c_address = ''1 Main St'', c_payment_method = ''card'',
     c_items = [\<lparr>i_product_id = ''aaaaaaaaaaaaaaaaaaaaaaa1'', i_title = ''Lamp'', i_price = Finite (-5),
                 i_quantity = 2, i_image = None\<rparr>]\<rparr>"

definition negative_cart :: CheckoutPayload where
  "negative_cart = \<lparr>c_name = ''Gil'', c_address = ''1 Main St'', c_payment_method = ''card'',
     c_items = [\<lparr>i_product_id = ''aaaaaaaaaaaaaaaaaaaaaaa1'', i_title = ''Lamp'', i_price = Finite (-1),
                 i_quantity = 1, i_image = None\<rparr>]\<rparr>"

definition order_of :: "string option \<Rightarrow> objectid \<Rightarrow> int \<Rightarrow> order_doc" where
  "order_of owner oid created =
     \<lparr>o_user_id = owner, o_name = ''N'', o_address = ''A'', o_payment_method = ''card'',
      o_items = [], o_total = Finite 0, o_status = ''pending'', o_id = oid, o_created_at = created\<rparr>"

definition store1 :: store where
  "store1 = \<lparr>users = [ann, bob], products = [lamp],
             orders = [order_of (Some ''a1'') ''d1'' 10, order_of None ''d2'' 20,
                       order_of (Some ''b1'') ''d3'' 30, order_of (Some ''a1'') ''d4'' 40]\<rparr>"

definition lamp_edit :: product_body where
  "lamp_edit = \<lparr>b_title = ''Lamp 2'', b_description = None, b_price = Finite 60,
                b_category = ''home'', b_image = None, b_in_stock = None\<rparr>"



section \<open>Properties of the operations\<close>

subsection \<open>Queries and string operations\<close>

lemma find_one_None_iff: "find_one q ds = None \<longleftrightarrow> (\<forall>d\<in>set ds. \<not> q d)"
  by (induction ds) auto

lemma find_one_SomeD: "find_one q ds = Some d \<Longrightarrow> d \<in> set ds \<and> q d"
  by (induction ds) (auto split: if_splits)

lemma startswith_iff: "startswith a p \<longleftrightarrow> (\<exists>r. a = p @ r)"
proof
  assume "startswith a p"
  then have "a = p @ drop (length p) a"
    unfolding startswith_def using append_take_drop_id [of "length p" a] by simp
  then show "\<exists>r. a = p @ r" ..
next
  assume "\<exists>r. a = p @ r"
  then show "startswith a p" by (auto simp: startswith_def)
qed

subsection \<open>Resolving the bearer token\<close>

lemma bearer_token_Bearer: "bearer_token (Some (''Bearer '' @ t)) = Inr (Some t)"
  by (simp add: bearer_token_def startswith_def split1_def py_index_def)

lemma bearer_token_other: "\<not> startswith a ''Bearer '' \<Longrightarrow> bearer_token (Some a) = Inr None"
  by (simp add: bearer_token_def)

lemma bearer_token_total: "\<exists>t. bearer_token authorization = Inr t"
proof (cases authorization)
  case None
  then show ?thesis by (simp add: bearer_token_def)
next
  case (Some a)
  show ?thesis
  proof (cases "startswith a ''Bearer ''")
    case True
    then obtain r where "a = ''Bearer '' @ r" by (auto simp: startswith_iff)
    with Some show ?thesis using bearer_token_Bearer by blast
  next
    case False
    with Some show ?thesis by (simp add: bearer_token_other)
  qed
qed

lemma user_from_token_None:
  "user_from_token s None = None" "user_from_token s (Some []) = None"
  by (simp_all add: user_from_token_def)

lemma user_from_token_unknown:
  "\<forall>u\<in>set (users s). u_token u \<noteq> Some t \<Longrightarrow> user_from_token s (Some t) = None"
proof -
  assume "\<forall>u\<in>set (users s). u_token u \<noteq> Some t"
  then have "find_one (\<lambda>u. u_token u = Some t) (users s) = None"
    by (simp add: find_one_None_iff)
  then show ?thesis by (simp add: user_from_token_def)
qed

lemma resolve_Bearer: "resolve s (Some (''Bearer '' @ t)) = Inr (user_from_token s (Some t))"
  unfolding resolve_def bearer_token_Bearer by simp

lemma resolve_total: "\<exists>r. resolve s authorization = Inr r"
  using bearer_token_total [of authorization] by (auto simp: resolve_def)

text \<open>
  Claim C3. Resolving the bearer token never raises: whatever the header, the result
  is a value (\<open>Inr\<close>). An absent header, a header that does not start with
  \<^verbatim>\<open>Bearer \<close>, an empty token and a token that no user record holds all resolve to
  the anonymous identity \<open>None\<close>; a token that a user record holds resolves to the
  first such record, with its identifier as a string.
\<close>

theorem resolve_never_raises:
  "(\<exists>r. resolve s authorization = Inr r)
   \<and> resolve s None = Inr None
   \<and> (\<not> startswith a ''Bearer '' \<longrightarrow> resolve s (Some a) = Inr None)
   \<and> resolve s (Some ''Bearer '') = Inr None
   \<and> ((\<forall>u\<in>set (users s). u_token u \<noteq> Some t) \<longrightarrow>
        resolve s (Some (''Bearer '' @ t)) = Inr None)
   \<and> (t \<noteq> [] \<and> find_one (\<lambda>u. u_token u = Some t) (users s) = Some u \<longrightarrow>
        resolve s (Some (''Bearer '' @ t)) = Inr (Some (u\<lparr>u_id := str_oid (u_id u)\<rparr>))
        \<and> u \<in> set (users s) \<and> u_token u = Some t)"
proof -
  have total: "\<exists>r. resolve s authorization = Inr r"
    by (rule resolve_total)
  have absent: "resolve s None = Inr None"
    by (simp add: resolve_def bearer_token_def user_from_token_None)
  have malformed: "\<not> startswith a ''Bearer '' \<longrightarrow> resolve s (Some a) = Inr None"
    by (simp add: resolve_def bearer_token_other user_from_token_None)
  have empty: "resolve s (Some ''Bearer '') = Inr None"
    using resolve_Bearer [of s "[]"] by (simp add: user_from_token_None)
  have unknown: "(\<forall>u\<in>set (users s). u_token u \<noteq> Some t) \<longrightarrow>
        resolve s (Some (''Bearer '' @ t)) = Inr None"
    unfolding resolve_Bearer by (simp add: user_from_token_unknown)
  have known: "t \<noteq> [] \<and> find_one (\<lambda>u. u_token u = Some t) (users s) = Some u \<longrightarrow>
        resolve s (Some (''Bearer '' @ t)) = Inr (Some (u\<lparr>u_id := str_oid (u_id u)\<rparr>))
        \<and> u \<in> set (users s) \<and> u_token u = Some t"
    using find_one_SomeD [of "\<lambda>u. u_token u = Some t" "users s" u]
    unfolding resolve_Bearer by (simp add: user_from_token_def)
  from total absent malformed empty unknown known show ?thesis by blast
qed

theorem resolve_never_raises_witness:
  "resolve \<lparr>users = [ann], products = [], orders = []\<rparr> (Some ''Bearer t1'') = Inr (Some ann)
   \<and> resolve \<lparr>users = [ann], products = [], orders = []\<rparr> (Some ''Basic t1'') = Inr None
   \<and> resolve \<lparr>users = [ann], products = [], orders = []\<rparr> (Some ''Bearer zz'') = Inr None"
  using resolve_never_raises [of "\<lparr>users = [ann], products = [], orders = []\<rparr>" None
          "''Basic t1''" "''t1''" ann]
        resolve_never_raises [of "\<lparr>users = [ann], products = [], orders = []\<rparr>" None
          "''Basic t1''" "''zz''" ann]
  by (simp add: ann_def startswith_def str_oid_def)

subsection \<open>The administrator gate\<close>

lemma not_admin_iff: "\<not> not_admin user \<longleftrightarrow> (\<exists>u. user = Some u \<and> u_is_admin u)"
  by (cases user) (simp_all add: not_admin_def)

lemma create_product_denied:
  "resolve s authorization = Inr user \<Longrightarrow> not_admin user \<Longrightarrow>
   create_product e s payload authorization = (s, Inl (HTTPException 403 ''Admin only''))"
  by (simp add: create_product_def)

lemma update_product_denied:
  "resolve s authorization = Inr user \<Longrightarrow> not_admin user \<Longrightarrow>
   update_product s product_id payload authorization = (s, Inl (HTTPException 403 ''Admin only''))"
  by (simp add: update_product_def)

lemma delete_product_denied:
  "resolve s authorization = Inr user \<Longrightarrow> not_admin user \<Longrightarrow>
   delete_product s product_id authorization = (s, Inl (HTTPException 403 ''Admin only''))"
  by (simp add: delete_product_def)

lemma create_product_allowed:
  "resolve s authorization = Inr user \<Longrightarrow> \<not> not_admin user \<Longrightarrow>
   snd (create_product e s payload authorization) \<noteq> Inl (HTTPException 403 d)"
  by (simp add: create_product_def Product_validate_def create_document_product_def)

lemma update_product_allowed:
  "resolve s authorization = Inr user \<Longrightarrow> \<not> not_admin user \<Longrightarrow>
   snd (update_product s product_id payload authorization) \<noteq> Inl (HTTPException 403 d)"
  by (simp add: update_product_def split: sum.splits prod.splits)

lemma delete_product_allowed:
  "resolve s authorization = Inr user \<Longrightarrow> \<not> not_admin user \<Longrightarrow>
   snd (delete_product s product_id authorization) \<noteq> Inl (HTTPException 403 d)"
  by (simp add: delete_product_def split: sum.splits prod.splits)

lemma create_product_never_401:
  "snd (create_product e s payload authorization) \<noteq> Inl (HTTPException 401 d)"
  using resolve_total [of s authorization]
  by (auto simp: create_product_def Product_validate_def create_document_product_def
           split: if_splits)

lemma update_product_never_401:
  "snd (update_product s product_id payload authorization) \<noteq> Inl (HTTPException 401 d)"
  using resolve_total [of s authorization]
  by (auto simp: update_product_def split: sum.splits prod.splits if_splits)

lemma delete_product_never_401:
  "snd (delete_product s product_id authorization) \<noteq> Inl (HTTPException 401 d)"
  using resolve_total [of s authorization]
  by (auto simp: delete_product_def split: sum.splits prod.splits if_splits)

text \<open>
  Claim C1. On the three administrator-only routes (product create, update, delete)
  the operation is allowed if and only if the header resolves to an identity with
  \<^verbatim>\<open>is_admin\<close> true. An anonymous caller and an authenticated caller who is not an
  administrator both get status 403 with the store unchanged, whatever the product id
  and the payload, so the check comes before the id validation and before any write;
  an administrator never gets 403; and no caller ever gets 401 from these routes.
\<close>

theorem admin_only_gate:
  assumes "resolve s authorization = Inr user"
  shows "((\<exists>u. user = Some u \<and> u_is_admin u) \<longrightarrow>
            (\<forall>d. snd (create_product e s payload authorization) \<noteq> Inl (HTTPException 403 d))
          \<and> (\<forall>d. snd (update_product s product_id payload authorization) \<noteq> Inl (HTTPException 403 d))
          \<and> (\<forall>d. snd (delete_product s product_id authorization) \<noteq> Inl (HTTPException 403 d)))
       \<and> (\<not> (\<exists>u. user = Some u \<and> u_is_admin u) \<longrightarrow>
            create_product e s payload authorization = (s, Inl (HTTPException 403 ''Admin only''))
          \<and> update_product s product_id payload authorization
              = (s, Inl (HTTPException 403 ''Admin only''))
          \<and> delete_product s product_id authorization
              = (s, Inl (HTTPException 403 ''Admin only'')))
       \<and> (\<forall>d. snd (create_product e s payload authorization) \<noteq> Inl (HTTPException 401 d))
       \<and> (\<forall>d. snd (update_product s product_id payload authorization) \<noteq> Inl (HTTPException 401 d))
       \<and> (\<forall>d. snd (delete_product s product_id authorization) \<noteq> Inl (HTTPException 401 d))"
proof -
  have allowed: "(\<exists>u. user = Some u \<and> u_is_admin u) \<longrightarrow>
            (\<forall>d. snd (create_product e s payload authorization) \<noteq> Inl (HTTPException 403 d))
          \<and> (\<forall>d. snd (update_product s product_id payload authorization) \<noteq> Inl (HTTPException 403 d))
          \<and> (\<forall>d. snd (delete_product s product_id authorization) \<noteq> Inl (HTTPException 403 d))"
    using assms create_product_allowed update_product_allowed delete_product_allowed
      not_admin_iff [of user] by blast
  have denied: "\<not> (\<exists>u. user = Some u \<and> u_is_admin u) \<longrightarrow>
            create_product e s payload authorization = (s, Inl (HTTPException 403 ''Admin only''))
          \<and> update_product s product_id payload authorization
              = (s, Inl (HTTPException 403 ''Admin only''))
          \<and> delete_product s product_id authorization
              = (s, Inl (HTTPException 403 ''Admin only''))"
    using assms create_product_denied update_product_denied delete_product_denied
      not_admin_iff [of user] by blast
  from allowed denied create_product_never_401 update_product_never_401
    delete_product_never_401
  show ?thesis by blast
qed

theorem admin_only_gate_witness:
  "delete_product store0 ''not-an-id'' (Some ''Bearer t1'')
     = (store0, Inl (HTTPException 403 ''Admin only''))
   \<and> update_product store0 ''not-an-id'' bottle None
     = (store0, Inl (HTTPException 403 ''Admin only''))
   \<and> snd (create_product env0 store0 bottle (Some ''Bearer t2''))
     \<noteq> Inl (HTTPException 403 ''Admin only'')
   \<and> snd (create_product env0 store0 bottle (Some ''Bearer t2'')) = Inr (ProductCreated ''c1'')"
proof -
  have r_ann: "resolve store0 (Some ''Bearer t1'') = Inr (Some ann)"
    by (simp add: resolve_def bearer_token_def startswith_def split1_def py_index_def
        user_from_token_def store0_def ann_def bob_def str_oid_def)
  have r_none: "resolve store0 None = Inr None"
    by (simp add: resolve_def bearer_token_def user_from_token_def)
  have r_bob: "resolve store0 (Some ''Bearer t2'') = Inr (Some bob)"
    by (simp add: resolve_def bearer_token_def startswith_def split1_def py_index_def
        user_from_token_def store0_def ann_def bob_def str_oid_def)
  have created: "snd (create_product env0 store0 bottle (Some ''Bearer t2''))
      = Inr (ProductCreated ''c1'')"
    by (simp add: create_product_def r_bob not_admin_def bob_def Product_validate_def
        bottle_def create_document_product_def env0_def str_oid_def float_ge0_def)
  show ?thesis
    using admin_only_gate [OF r_ann, of env0 bottle "''not-an-id''"]
      admin_only_gate [OF r_none, of env0 bottle "''not-an-id''"]
      admin_only_gate [OF r_bob, of env0 bottle "''not-an-id''"] created
    by (simp add: ann_def bob_def)
qed

subsection \<open>Signup\<close>

text \<open>
  Claim C6. A signup whose email is already held by a user record is rejected with
  status 400, "Email already registered", and leaves the store unchanged; any other
  signup appends one user record with \<^verbatim>\<open>is_admin\<close> false, no token, no address and the
  digest of the submitted password, and returns the new identifier.
\<close>

theorem signup_duplicate_or_new:
  "((\<exists>u\<in>set (users s). u_email u = s_email payload) \<longrightarrow>
      signup e s payload = (s, Inl (HTTPException 400 ''Email already registered'')))
   \<and> (\<not> (\<exists>u\<in>set (users s). u_email u = s_email payload) \<longrightarrow>
      signup e s payload =
        (s\<lparr>users := users s @
            [\<lparr>u_name = s_name payload, u_email = s_email payload,
              u_password_hash = hash_password e (s_password payload),
              u_address = None, u_is_admin = False, u_token = None,
              u_id = inserted_id e, u_created_at = utcnow e\<rparr>]\<rparr>,
         Inr (SignupOk (str_oid (inserted_id e)))))"
proof (cases "find_one (\<lambda>u. u_email u = s_email payload) (users s)")
  case None
  then have "\<not> (\<exists>u\<in>set (users s). u_email u = s_email payload)"
    by (simp add: find_one_None_iff)
  with None show ?thesis
    by (simp add: signup_def create_document_user_def)
next
  case (Some existing)
  then have "\<exists>u\<in>set (users s). u_email u = s_email payload"
    using find_one_SomeD [OF Some] by blast
  with Some show ?thesis by (simp add: signup_def)
qed

theorem signup_duplicate_or_new_witness:
  "signup env0 store0 ann_again = (store0, Inl (HTTPException 400 ''Email already registered''))
   \<and> signup env0 store0 carol =
      (store0\<lparr>users := [ann, bob,
          \<lparr>u_name = ''Carol'', u_email = ''carol@x.com'', u_password_hash = ''h:pw3'',
            u_address = None, u_is_admin = False, u_token = None,
            u_id = ''c1'', u_created_at = 50\<rparr>]\<rparr>, Inr (SignupOk ''c1''))"
  using signup_duplicate_or_new [of store0 ann_again env0]
    signup_duplicate_or_new [of store0 carol env0]
  by (simp add: store0_def ann_def bob_def ann_again_def carol_def env0_def hash_password_def
      str_oid_def)

subsection \<open>Checkout\<close>

lemma line_totals_Inr:
  "line_totals e items = Inr xs \<Longrightarrow>
   length xs = length items
   \<and> (\<forall>k<length items. float_mul e (i_price (items ! k)) (i_quantity (items ! k)) = Inr (xs ! k))"
proof (induction items arbitrary: xs)
  case Nil
  then show ?case by simp
next
  case (Cons item items)
  from Cons.prems obtain x ys where
    x: "float_mul e (i_price item) (i_quantity item) = Inr x"
    and ys: "line_totals e items = Inr ys" and xs: "xs = x # ys"
    by (auto split: sum.splits)
  from Cons.IH [OF ys] have len: "length ys = length items"
    and rest: "\<forall>k<length items. float_mul e (i_price (items ! k)) (i_quantity (items ! k)) = Inr (ys ! k)"
    by simp_all
  have "float_mul e (i_price ((item # items) ! k)) (i_quantity ((item # items) ! k)) = Inr (xs ! k)"
    if "k < length (item # items)" for k
    using that x rest xs by (cases k) simp_all
  with len xs show ?case by simp
qed

lemma order_total_Inr:
  "order_total e items = Inr tot \<Longrightarrow>
   \<exists>xs. length xs = length items
     \<and> (\<forall>k<length items. float_mul e (i_price (items ! k)) (i_quantity (items ! k)) = Inr (xs ! k))
     \<and> tot = float_sum e xs"
proof -
  assume "order_total e items = Inr tot"
  then obtain xs where "line_totals e items = Inr xs" "tot = float_sum e xs"
    by (auto simp: order_total_def split: sum.splits)
  with line_totals_Inr [of e items xs] show ?thesis by blast
qed

lemma create_order_resolved:
  "resolve s authorization = Inr user \<Longrightarrow>
   create_order e s payload authorization =
     (case order_total e (c_items payload) of
        Inl ex \<Rightarrow> (s, Inl ex)
      | Inr tot \<Rightarrow>
          if float_ge0 tot
          then (s\<lparr>orders := orders s @
                   [\<lparr>o_user_id = (case user of Some u \<Rightarrow> Some (u_id u) | None \<Rightarrow> None),
                     o_name = c_name payload, o_address = c_address payload,
                     o_payment_method = c_payment_method payload, o_items = c_items payload,
                     o_total = tot, o_status = ''pending'',
                     o_id = inserted_id e, o_created_at = utcnow e\<rparr>]\<rparr>,
                Inr (OrderCreated (str_oid (inserted_id e)) tot))
          else (s, Inl ValidationError))"
  by (simp add: create_order_def Order_validate_def create_document_order_def split: sum.splits)

lemma float_negative_not_ge0: "float_negative x \<Longrightarrow> \<not> float_ge0 x"
  by (cases x) (simp_all add: float_negative_def float_ge0_def)

lemma refund_cart_total: "order_total env0 (c_items refund_cart) = Inr (Finite (- 10))"
  by (simp add: order_total_def refund_cart_def env0_def exact_mul_def exact_sum_def)

lemma guest_cart_total: "order_total env0 (c_items guest_cart) = Inr (Finite 30)"
  by (simp add: order_total_def guest_cart_def env0_def exact_mul_def exact_sum_def)

text \<open>
  Claim C10. \<^verbatim>\<open>OrderItem\<close> accepts any price (only the quantity is bounded, by 1 from
  below), \<^verbatim>\<open>Product\<close> requires a price of at least 0 and \<^verbatim>\<open>Order\<close> a total of at
  least 0. So a checkout whose items sum to a negative total, the total being the one
  the handler computes, fails with the validation error of \<^verbatim>\<open>Order\<close>, raised before
  \<^verbatim>\<open>create_document\<close> is called: the store is unchanged and no order is persisted.
\<close>

theorem negative_total_rejected:
  "(\<forall>tot. order_total e (c_items payload) = Inr tot \<and> float_negative tot \<longrightarrow>
      create_order e s payload authorization = (s, Inl ValidationError))
   \<and> (OrderItem_validate item = Inr item \<longleftrightarrow> 1 \<le> i_quantity item)
   \<and> (Product_validate product = Inr product \<longleftrightarrow> float_ge0 (p_price product))
   \<and> (Order_validate ord = Inr ord \<longleftrightarrow> float_ge0 (o_total ord))"
proof -
  obtain user where "resolve s authorization = Inr user"
    using resolve_total by blast
  then have "\<forall>tot. order_total e (c_items payload) = Inr tot \<and> float_negative tot \<longrightarrow>
      create_order e s payload authorization = (s, Inl ValidationError)"
    by (auto simp: create_order_resolved dest: float_negative_not_ge0)
  then show ?thesis
    by (simp add: OrderItem_validate_def Product_validate_def Order_validate_def)
qed

theorem negative_total_rejected_witness:
  "CheckoutPayload_ok refund_cart
   \<and> order_total env0 (c_items refund_cart) = Inr (Finite (- 10))
   \<and> create_order env0 store0 refund_cart (Some ''Bearer t1'') = (store0, Inl ValidationError)"
  using negative_total_rejected [of env0 refund_cart store0 "Some ''Bearer t1''"]
    refund_cart_total
  by (simp add: refund_cart_def CheckoutPayload_ok_def OrderItem_validate_def
      float_negative_def)

text \<open>
  Claim C5 says that every checkout without an \<^verbatim>\<open>Authorization\<close> header succeeds. It
  does not when the total is negative: the request below, one item of price -1 and
  quantity 1, passes the validation of the request body and is rejected by \<^verbatim>\<open>Order\<close>.
\<close>

theorem guest_checkout_counterexample:
  "CheckoutPayload_ok negative_cart
   \<and> create_order env0 store0 negative_cart None = (store0, Inl ValidationError)"
  by (simp add: negative_cart_def CheckoutPayload_ok_def OrderItem_validate_def order_total_def
      create_order_def resolve_def bearer_token_def user_from_token_def Order_validate_def
      env0_def exact_mul_def exact_sum_def float_ge0_def)

text \<open>
  Claim C5, amended. The handler computes the total as the sum over the submitted items
  of price times quantity, in the arithmetic of the interpreter (the request body has no
  total field). When that total is at least 0, the order is appended to the order
  collection, and the persisted total and the returned total are that computed value;
  the owner is the identifier of the resolved identity, and without an
  \<^verbatim>\<open>Authorization\<close> header the checkout succeeds with \<^verbatim>\<open>user_id\<close> null. When the total
  is not at least 0, the checkout fails with the validation error of \<^verbatim>\<open>Order\<close>, and
  when a product of price and quantity raises, with that exception; in both cases the
  store is unchanged. One item of price 10 and quantity 3 gives the total 30.
\<close>

theorem checkout_total_server_computed:
  "(\<forall>tot. order_total e (c_items payload) = Inr tot \<longrightarrow>
      (\<exists>xs. length xs = length (c_items payload)
         \<and> (\<forall>k<length (c_items payload).
               float_mul e (i_price (c_items payload ! k)) (i_quantity (c_items payload ! k))
                 = Inr (xs ! k))
         \<and> tot = float_sum e xs))
   \<and> (\<forall>user tot. resolve s authorization = Inr user
         \<and> order_total e (c_items payload) = Inr tot \<and> float_ge0 tot \<longrightarrow>
       create_order e s payload authorization =
         (s\<lparr>orders := orders s @
             [\<lparr>o_user_id = (case user of Some u \<Rightarrow> Some (u_id u) | None \<Rightarrow> None),
               o_name = c_name payload, o_address = c_address payload,
               o_payment_method = c_payment_method payload, o_items = c_items payload,
               o_total = tot, o_status = ''pending'',
               o_id = inserted_id e, o_created_at = utcnow e\<rparr>]\<rparr>,
          Inr (OrderCreated (str_oid (inserted_id e)) tot)))
   \<and> (\<forall>tot. order_total e (c_items payload) = Inr tot \<and> float_ge0 tot \<longrightarrow>
       create_order e s payload None =
         (s\<lparr>orders := orders s @
             [\<lparr>o_user_id = None,
               o_name = c_name payload, o_address = c_address payload,
               o_payment_method = c_payment_method payload, o_items = c_items payload,
               o_total = tot, o_status = ''pending'',
               o_id = inserted_id e, o_created_at = utcnow e\<rparr>]\<rparr>,
          Inr (OrderCreated (str_oid (inserted_id e)) tot)))
   \<and> (\<forall>tot. order_total e (c_items payload) = Inr tot \<and> \<not> float_ge0 tot \<longrightarrow>
       create_order e s payload authorization = (s, Inl ValidationError))
   \<and> (\<forall>ex. order_total e (c_items payload) = Inl ex \<longrightarrow>
       create_order e s payload authorization = (s, Inl ex))"
proof -
  have computed: "\<forall>tot. order_total e (c_items payload) = Inr tot \<longrightarrow>
      (\<exists>xs. length xs = length (c_items payload)
         \<and> (\<forall>k<length (c_items payload).
               float_mul e (i_price (c_items payload ! k)) (i_quantity (c_items payload ! k))
                 = Inr (xs ! k))
         \<and> tot = float_sum e xs)"
    using order_total_Inr by blast
  have persisted: "\<forall>user tot. resolve s authorization = Inr user
         \<and> order_total e (c_items payload) = Inr tot \<and> float_ge0 tot \<longrightarrow>
       create_order e s payload authorization =
         (s\<lparr>orders := orders s @
             [\<lparr>o_user_id = (case user of Some u \<Rightarrow> Some (u_id u) | None \<Rightarrow> None),
               o_name = c_name payload, o_address = c_address payload,
               o_payment_method = c_payment_method payload, o_items = c_items payload,
               o_total = tot, o_status = ''pending'',
               o_id = inserted_id e, o_created_at = utcnow e\<rparr>]\<rparr>,
          Inr (OrderCreated (str_oid (inserted_id e)) tot))"
    by (simp add: create_order_resolved)
  have none: "resolve s None = Inr None"
    by (simp add: resolve_def bearer_token_def user_from_token_def)
  have guest: "\<forall>tot. order_total e (c_items payload) = Inr tot \<and> float_ge0 tot \<longrightarrow>
       create_order e s payload None =
         (s\<lparr>orders := orders s @
             [\<lparr>o_user_id = None,
               o_name = c_name payload, o_address = c_address payload,
               o_payment_method = c_payment_method payload, o_items = c_items payload,
               o_total = tot, o_status = ''pending'',
               o_id = inserted_id e, o_created_at = utcnow e\<rparr>]\<rparr>,
          Inr (OrderCreated (str_oid (inserted_id e)) tot))"
    by (simp add: create_order_resolved [OF none])
  obtain user where "resolve s authorization = Inr user"
    using resolve_total by blast
  then have rejected: "\<forall>tot. order_total e (c_items payload) = Inr tot \<and> \<not> float_ge0 tot \<longrightarrow>
       create_order e s payload authorization = (s, Inl ValidationError)"
    and raised: "\<forall>ex. order_total e (c_items payload) = Inl ex \<longrightarrow>
       create_order e s payload authorization = (s, Inl ex)"
    by (simp_all add: create_order_resolved)
  from computed persisted guest rejected raised show ?thesis by blast
qed

theorem checkout_total_server_computed_witness:
  "order_total env0 (c_items guest_cart) = Inr (Finite 30)
   \<and> create_order env0 store0 guest_cart None =
     (store0\<lparr>orders :=
         [\<lparr>o_user_id = None, o_name = ''Gil'', o_address = ''1 Main St'',
           o_payment_method = ''card'', o_items = c_items guest_cart, o_total = Finite 30,
           o_status = ''pending'', o_id = ''c1'', o_created_at = 50\<rparr>]\<rparr>,
      Inr (OrderCreated ''c1'' (Finite 30)))"
proof -
  have "float_ge0 (Finite 30)" by (simp add: float_ge0_def)
  with checkout_total_server_computed [of env0 guest_cart store0 None] guest_cart_total
  have "create_order env0 store0 guest_cart None =
         (store0\<lparr>orders := orders store0 @
             [\<lparr>o_user_id = None,
               o_name = c_name guest_cart, o_address = c_address guest_cart,
               o_payment_method = c_payment_method guest_cart, o_items = c_items guest_cart,
               o_total = Finite 30, o_status = ''pending'',
               o_id = inserted_id env0, o_created_at = utcnow env0\<rparr>]\<rparr>,
          Inr (OrderCreated (str_oid (inserted_id env0)) (Finite 30)))"
    by blast
  with guest_cart_total show ?thesis
    by (simp add: guest_cart_def store0_def env0_def str_oid_def)
qed

subsection \<open>Listing orders\<close>

lemma order_id_as_string: "(\<lambda>ord::order_doc. ord\<lparr>o_id := str_oid (o_id ord)\<rparr>) = (\<lambda>ord. ord)"
  by (simp add: str_oid_def)

lemma newest_first_sort_desc: "newest_first (sort_desc o_created_at os)"
proof -
  have "sorted (map o_created_at (sort_key o_created_at os))"
    by (rule sorted_sort_key)
  then have "sorted_wrt (\<lambda>a b. o_created_at a \<le> o_created_at b) (sort_key o_created_at os)"
    by (simp add: sorted_map)
  then show ?thesis
    by (simp add: newest_first_def sort_desc_def sorted_wrt_rev)
qed

lemma mset_sort_desc: "mset (sort_desc key ds) = mset ds"
  by (simp add: sort_desc_def)

lemma list_orders_resolved:
  "resolve s authorization = Inr user \<Longrightarrow>
   list_orders s authorization =
     (case user of
        None \<Rightarrow> (s, Inl (HTTPException 401 ''Unauthorized''))
      | Some u \<Rightarrow>
          (s, Inr (OrderList (sort_desc o_created_at
                (filter (if \<not> u_is_admin u then (\<lambda>ord. o_user_id ord = Some (u_id u))
                         else (\<lambda>ord. True)) (orders s))))))"
  by (simp add: list_orders_def Let_def order_id_as_string split: option.splits)

text \<open>
  Claim C4. Listing orders: an anonymous caller gets status 401; a caller who is not an
  administrator gets exactly the orders whose \<^verbatim>\<open>user_id\<close> is the caller's own
  identifier (as a multiset: each such order once, and no order of another owner); an
  administrator gets all orders; in both cases newest first by creation time.
\<close>

theorem orders_owner_or_admin:
  assumes "resolve s authorization = Inr user"
  shows "(user = None \<longrightarrow>
            list_orders s authorization = (s, Inl (HTTPException 401 ''Unauthorized'')))
       \<and> (\<forall>u. user = Some u \<and> \<not> u_is_admin u \<longrightarrow>
            (\<exists>os. list_orders s authorization = (s, Inr (OrderList os))
               \<and> mset os = mset (filter (\<lambda>ord. o_user_id ord = Some (u_id u)) (orders s))
               \<and> (\<forall>ord\<in>set os. o_user_id ord = Some (u_id u))
               \<and> newest_first os))
       \<and> (\<forall>u. user = Some u \<and> u_is_admin u \<longrightarrow>
            (\<exists>os. list_orders s authorization = (s, Inr (OrderList os))
               \<and> mset os = mset (orders s)
               \<and> newest_first os))"
proof -
  have anonymous: "user = None \<longrightarrow>
      list_orders s authorization = (s, Inl (HTTPException 401 ''Unauthorized''))"
    using assms by (simp add: list_orders_resolved)
  have owner: "\<exists>os. list_orders s authorization = (s, Inr (OrderList os))
               \<and> mset os = mset (filter (\<lambda>ord. o_user_id ord = Some (u_id u)) (orders s))
               \<and> (\<forall>ord\<in>set os. o_user_id ord = Some (u_id u))
               \<and> newest_first os"
    if "user = Some u" "\<not> u_is_admin u" for u
  proof -
    let ?os = "sort_desc o_created_at
                 (filter (\<lambda>ord. o_user_id ord = Some (u_id u)) (orders s))"
    have "list_orders s authorization = (s, Inr (OrderList ?os))"
      using assms that by (simp add: list_orders_resolved)
    moreover have "mset ?os = mset (filter (\<lambda>ord. o_user_id ord = Some (u_id u)) (orders s))"
      by (rule mset_sort_desc)
    moreover have "\<forall>ord\<in>set ?os. o_user_id ord = Some (u_id u)"
      by (simp add: sort_desc_def)
    moreover have "newest_first ?os" by (rule newest_first_sort_desc)
    ultimately show ?thesis by blast
  qed
  have admin: "\<exists>os. list_orders s authorization = (s, Inr (OrderList os))
               \<and> mset os = mset (orders s) \<and> newest_first os"
    if "user = Some u" "u_is_admin u" for u
  proof -
    let ?os = "sort_desc o_created_at (orders s)"
    have "list_orders s authorization = (s, Inr (OrderList ?os))"
      using assms that by (simp add: list_orders_resolved)
    moreover have "mset ?os = mset (orders s)" by (rule mset_sort_desc)
    moreover have "newest_first ?os" by (rule newest_first_sort_desc)
    ultimately show ?thesis by blast
  qed
  from anonymous owner admin show ?thesis by blast
qed

theorem orders_owner_or_admin_witness:
  "list_orders store1 None = (store1, Inl (HTTPException 401 ''Unauthorized''))
   \<and> list_orders store1 (Some ''Bearer t1'')
     = (store1, Inr (OrderList [order_of (Some ''a1'') ''d4'' 40, order_of (Some ''a1'') ''d1'' 10]))
   \<and> list_orders store1 (Some ''Bearer t2'')
     = (store1, Inr (OrderList [order_of (Some ''a1'') ''d4'' 40, order_of (Some ''b1'') ''d3'' 30,
                                 order_of None ''d2'' 20, order_of (Some ''a1'') ''d1'' 10]))"
proof -
  have r_none: "resolve store1 None = Inr None"
    by (simp add: resolve_def bearer_token_def user_from_token_def)
  have r_ann: "resolve store1 (Some ''Bearer t1'') = Inr (Some ann)"
    by (simp add: resolve_def bearer_token_def startswith_def split1_def py_index_def
        user_from_token_def store1_def ann_def bob_def str_oid_def)
  have r_bob: "resolve store1 (Some ''Bearer t2'') = Inr (Some bob)"
    by (simp add: resolve_def bearer_token_def startswith_def split1_def py_index_def
        user_from_token_def store1_def ann_def bob_def str_oid_def)
  have l_ann: "list_orders store1 (Some ''Bearer t1'')
     = (store1, Inr (OrderList [order_of (Some ''a1'') ''d4'' 40, order_of (Some ''a1'') ''d1'' 10]))"
    unfolding list_orders_resolved [OF r_ann]
    by (simp add: ann_def store1_def order_of_def sort_desc_def)
  have l_bob: "list_orders store1 (Some ''Bearer t2'')
     = (store1, Inr (OrderList [order_of (Some ''a1'') ''d4'' 40, order_of (Some ''b1'') ''d3'' 30,
                                 order_of None ''d2'' 20, order_of (Some ''a1'') ''d1'' 10]))"
    unfolding list_orders_resolved [OF r_bob]
    by (simp add: bob_def store1_def order_of_def sort_desc_def)
  show ?thesis
    using orders_owner_or_admin [OF r_none] orders_owner_or_admin [OF r_ann]
      orders_owner_or_admin [OF r_bob] l_ann l_bob
    by simp
qed

subsection \<open>Updating a product\<close>

lemma update_one_unmatched:
  "find_one q ds = None \<Longrightarrow> update_one q f ds = (ds, 0)"
  by (induction ds) (auto split: if_splits)

lemma update_one_matched:
  "find_one q ds = Some d \<Longrightarrow>
   \<exists>pre post. ds = pre @ d # post \<and> (\<forall>x\<in>set pre. \<not> q x) \<and> q d
      \<and> update_one q f ds = (pre @ f d # post, 1)"
proof (induction ds)
  case Nil
  then show ?case by simp
next
  case (Cons x ds)
  show ?case
  proof (cases "q x")
    case True
    with Cons.prems have "x = d" by simp
    with True have "x # ds = [] @ d # ds \<and> (\<forall>y\<in>set []. \<not> q y) \<and> q d
        \<and> update_one q f (x # ds) = ([] @ f d # ds, 1)"
      by simp
    then show ?thesis by blast
  next
    case False
    with Cons.prems have "find_one q ds = Some d" by simp
    from Cons.IH [OF this] obtain pre post where
      "ds = pre @ d # post" "\<forall>y\<in>set pre. \<not> q y" "q d"
      "update_one q f ds = (pre @ f d # post, 1)" by blast
    with False have "x # ds = (x # pre) @ d # post \<and> (\<forall>y\<in>set (x # pre). \<not> q y) \<and> q d
        \<and> update_one q f (x # ds) = ((x # pre) @ f d # post, 1)"
      by simp
    then show ?thesis by blast
  qed
qed

lemma update_product_Updated:
  assumes "update_product s product_id payload authorization = (s', Inr Updated)"
  shows "\<exists>oid pre p post. ObjectId product_id = Inr oid
           \<and> products s = pre @ p # post \<and> (\<forall>x\<in>set pre. p_id x \<noteq> oid) \<and> p_id p = oid
           \<and> s' = s\<lparr>products := pre @
                  p\<lparr>p_title := p_title payload, p_description := p_description payload,
                    p_price := p_price payload, p_category := p_category payload,
                    p_image := p_image payload, p_in_stock := p_in_stock payload\<rparr> # post\<rparr>"
proof -
  obtain user where r: "resolve s authorization = Inr user"
    using resolve_total by blast
  from assms r have adm: "\<not> not_admin user"
    by (auto simp: update_product_def split: if_splits)
  from assms r adm obtain oid where oid: "ObjectId product_id = Inr oid"
    by (cases "ObjectId product_id") (auto simp: update_product_def)
  let ?f = "\<lambda>p::product_doc. p\<lparr>p_title := p_title payload, p_description := p_description payload,
                    p_price := p_price payload, p_category := p_category payload,
                    p_image := p_image payload, p_in_stock := p_in_stock payload\<rparr>"
  show ?thesis
  proof (cases "find_one (\<lambda>p. p_id p = oid) (products s)")
    case None
    then have "update_one (\<lambda>p. p_id p = oid) ?f (products s) = (products s, 0)"
      by (rule update_one_unmatched)
    with assms r adm oid show ?thesis by (simp add: update_product_def)
  next
    case (Some p)
    from update_one_matched [OF Some, of ?f] obtain pre post where
      split: "products s = pre @ p # post" "\<forall>x\<in>set pre. p_id x \<noteq> oid" "p_id p = oid"
      and upd: "update_one (\<lambda>p. p_id p = oid) ?f (products s) = (pre @ ?f p # post, 1)"
      by blast
    from assms r adm oid upd have "s' = s\<lparr>products := pre @ ?f p # post\<rparr>"
      by (simp add: update_product_def)
    with oid split show ?thesis by blast
  qed
qed

text \<open>
  Claim C9. Every successful product update replaces all six product fields of the first
  product with the given id by the values of the payload: a key the body leaves out is
  written with its default (\<^verbatim>\<open>description\<close> and \<^verbatim>\<open>image\<close> null, \<^verbatim>\<open>in_stock\<close> true)
  over whatever was stored. The identifier and the creation time of the product, the
  other products, the users and the orders stay as they were.
\<close>

theorem update_replaces_all_fields:
  assumes "update_product s product_id (ProductPayload body) authorization = (s', Inr Updated)"
  shows "\<exists>oid pre p post. ObjectId product_id = Inr oid
           \<and> products s = pre @ p # post \<and> (\<forall>x\<in>set pre. p_id x \<noteq> oid) \<and> p_id p = oid
           \<and> products s' = pre @
                \<lparr>p_title = b_title body,
                 p_description = b_description body,
                 p_price = b_price body,
                 p_category = b_category body,
                 p_image = b_image body,
                 p_in_stock = (case b_in_stock body of None \<Rightarrow> True | Some v \<Rightarrow> v),
                 p_id = p_id p, p_created_at = p_created_at p\<rparr> # post
           \<and> users s' = users s \<and> orders s' = orders s"
proof -
  from update_product_Updated [OF assms] obtain oid pre p post where
    "ObjectId product_id = Inr oid" "products s = pre @ p # post"
    "\<forall>x\<in>set pre. p_id x \<noteq> oid" "p_id p = oid"
    and s': "s' = s\<lparr>products := pre @
                  p\<lparr>p_title := p_title (ProductPayload body),
                    p_description := p_description (ProductPayload body),
                    p_price := p_price (ProductPayload body),
                    p_category := p_category (ProductPayload body),
                    p_image := p_image (ProductPayload body),
                    p_in_stock := p_in_stock (ProductPayload body)\<rparr> # post\<rparr>"
    by blast
  moreover from s' have "products s' = pre @
                \<lparr>p_title = b_title body,
                 p_description = b_description body,
                 p_price = b_price body,
                 p_category = b_category body,
                 p_image = b_image body,
                 p_in_stock = (case b_in_stock body of None \<Rightarrow> True | Some v \<Rightarrow> v),
                 p_id = p_id p, p_created_at = p_created_at p\<rparr> # post"
    by (cases p) (simp add: ProductPayload_def)
  moreover from s' have "users s' = users s" "orders s' = orders s" by simp_all
  ultimately show ?thesis by blast
qed

lemma lamp_update:
  "update_product store0 ''aaaaaaaaaaaaaaaaaaaaaaa1'' (ProductPayload lamp_edit) (Some ''Bearer t2'')
     = (store0\<lparr>products :=
          [\<lparr>p_title = ''Lamp 2'', p_description = None, p_price = Finite 60, p_category = ''home'',
            p_image = None, p_in_stock = True, p_id = ''aaaaaaaaaaaaaaaaaaaaaaa1'',
            p_created_at = 3\<rparr>]\<rparr>, Inr Updated)"
proof -
  have r_bob: "resolve store0 (Some ''Bearer t2'') = Inr (Some bob)"
    by (simp add: resolve_def bearer_token_def startswith_def split1_def py_index_def
        user_from_token_def store0_def ann_def bob_def str_oid_def)
  have oid: "ObjectId ''aaaaaaaaaaaaaaaaaaaaaaa1'' = Inr ''aaaaaaaaaaaaaaaaaaaaaaa1''"
    by (simp add: ObjectId_def is_hex_digit_def lower_char_def)
  show ?thesis
    unfolding update_product_def r_bob oid
    by (simp add: not_admin_def bob_def store0_def lamp_def ProductPayload_def lamp_edit_def)
qed

theorem update_replaces_all_fields_witness:
  "update_product store0 ''aaaaaaaaaaaaaaaaaaaaaaa1'' (ProductPayload lamp_edit) (Some ''Bearer t2'')
     = (store0\<lparr>products :=
          [\<lparr>p_title = ''Lamp 2'', p_description = None, p_price = Finite 60, p_category = ''home'',
            p_image = None, p_in_stock = True, p_id = ''aaaaaaaaaaaaaaaaaaaaaaa1'',
            p_created_at = 3\<rparr>]\<rparr>, Inr Updated)
   \<and> p_description lamp = Some ''Minimal'' \<and> p_image lamp = Some ''lamp.png''
   \<and> \<not> p_in_stock lamp"
  using update_replaces_all_fields [OF lamp_update] lamp_update
  by (simp add: lamp_def)

subsection \<open>Login\<close>

lemma find_one_distinct_key:
  "distinct (map k ds) \<Longrightarrow> d \<in> set ds \<Longrightarrow> find_one (\<lambda>x. k x = k d) ds = Some d"
  by (induction ds) (auto simp: image_iff)


lemma tokens_of_Nil: "tokens_of [] = []"
  by (simp add: tokens_of_def)

lemma tokens_of_append: "tokens_of (xs @ ys) = tokens_of xs @ tokens_of ys"
  by (simp add: tokens_of_def)

lemma tokens_of_Cons:
  "tokens_of (u # us) = (case u_token u of None \<Rightarrow> [] | Some t \<Rightarrow> [t]) @ tokens_of us"
  by (simp add: tokens_of_def)


lemma login_rejected:
  "\<not> (\<exists>u. find_one (\<lambda>u. u_email u = l_email payload) (users s) = Some u
          \<and> u_password_hash u = hash_password e (l_password payload)) \<Longrightarrow>
   login e s payload = (s, Inl (HTTPException 401 ''Invalid credentials''))"
  by (cases "find_one (\<lambda>u. u_email u = l_email payload) (users s)")
     (auto simp: login_def)

lemma login_accepted:
  assumes ids: "distinct (map u_id (users s))"
    and found: "find_one (\<lambda>u. u_email u = l_email payload) (users s) = Some u"
    and digest: "u_password_hash u = hash_password e (l_password payload)"
  shows "\<exists>pre post. users s = pre @ u # post
           \<and> login e s payload =
               (s\<lparr>users := pre @ u\<lparr>u_token := Some (token_hex e)\<rparr> # post\<rparr>,
                Inr (LoginOk (token_hex e) (u_name u) (u_is_admin u)))"
proof -
  from find_one_SomeD [OF found] have "u \<in> set (users s)" by simp
  with ids have "find_one (\<lambda>x. u_id x = u_id u) (users s) = Some u"
    by (rule find_one_distinct_key)
  from update_one_matched [OF this, of "\<lambda>x. x\<lparr>u_token := Some (token_hex e)\<rparr>"]
  obtain pre post where split: "users s = pre @ u # post"
    and upd: "update_one (\<lambda>x. u_id x = u_id u) (\<lambda>x. x\<lparr>u_token := Some (token_hex e)\<rparr>) (users s)
           = (pre @ u\<lparr>u_token := Some (token_hex e)\<rparr> # post, 1)"
    by blast
  from found digest upd have "login e s payload =
               (s\<lparr>users := pre @ u\<lparr>u_token := Some (token_hex e)\<rparr> # post\<rparr>,
                Inr (LoginOk (token_hex e) (u_name u) (u_is_admin u)))"
    by (simp add: login_def Let_def)
  with split show ?thesis by blast
qed







text \<open>
  The invariant holds in the empty store and is kept by signup, when the database
  gives the new record an unused identifier, and by login, when the token is fresh.
\<close>

lemma users_ok_login:
  assumes ok: "users_ok s" and fresh: "fresh_token s (token_hex e)"
  shows "users_ok (fst (login e s payload))"
proof (cases "\<exists>u. find_one (\<lambda>u. u_email u = l_email payload) (users s) = Some u
          \<and> u_password_hash u = hash_password e (l_password payload)")
  case False
  then have "login e s payload = (s, Inl (HTTPException 401 ''Invalid credentials''))"
    by (rule login_rejected)
  with ok show ?thesis by simp
next
  case True
  then obtain u where found: "find_one (\<lambda>u. u_email u = l_email payload) (users s) = Some u"
    and digest: "u_password_hash u = hash_password e (l_password payload)" by blast
  from ok have ids: "distinct (map u_id (users s))" by (simp add: users_ok_def)
  from login_accepted [OF ids found digest] obtain pre post where
    split: "users s = pre @ u # post"
    and res: "login e s payload =
                   (s\<lparr>users := pre @ u\<lparr>u_token := Some (token_hex e)\<rparr> # post\<rparr>,
                    Inr (LoginOk (token_hex e) (u_name u) (u_is_admin u)))"
    by blast
  from fresh split have "token_hex e \<notin> set (tokens_of pre)" "token_hex e \<notin> set (tokens_of post)"
    by (simp_all add: fresh_token_def tokens_of_append tokens_of_Cons)
  moreover from ok split have "distinct (tokens_of pre)" "distinct (tokens_of post)"
    "set (tokens_of pre) \<inter> set (tokens_of post) = {}"
    by (auto simp: users_ok_def tokens_of_append tokens_of_Cons)
  ultimately have "distinct (tokens_of (pre @ u\<lparr>u_token := Some (token_hex e)\<rparr> # post))"
    by (simp add: tokens_of_append tokens_of_Cons)
  with ok split res show ?thesis by (simp add: users_ok_def)
qed

lemma users_ok_signup:
  assumes ok: "users_ok s" and new: "inserted_id e \<notin> u_id ` set (users s)"
  shows "users_ok (fst (signup e s payload))"
proof (cases "\<exists>u\<in>set (users s). u_email u = s_email payload")
  case True
  then have "signup e s payload = (s, Inl (HTTPException 400 ''Email already registered''))"
    using find_one_None_iff [of "\<lambda>u. u_email u = s_email payload" "users s"]
    by (cases "find_one (\<lambda>u. u_email u = s_email payload) (users s)") (auto simp: signup_def)
  with ok show ?thesis by simp
next
  case False
  then have none: "find_one (\<lambda>u. u_email u = s_email payload) (users s) = None"
    by (simp add: find_one_None_iff)
  from False have "s_email payload \<notin> u_email ` set (users s)" by auto
  with ok new none show ?thesis
    by (simp add: signup_def create_document_user_def users_ok_def tokens_of_append
        tokens_of_Cons tokens_of_Nil)
qed

lemma users_ok_empty: "users_ok \<lparr>users = [], products = ps, orders = os\<rparr>"
  by (simp add: users_ok_def tokens_of_def)


subsection \<open>Searching the catalog\<close>


text \<open>\<open>contains\<close> is the usual notion of a substring.\<close>

lemma contains_iff: "contains q v \<longleftrightarrow> (\<exists>pre post. v = pre @ q @ post)"
proof (induction v)
  case Nil
  then show ?case by simp
next
  case (Cons c cs)
  have head: "take (length q) (c # cs) = q \<longleftrightarrow> (\<exists>post. c # cs = q @ post)"
    by (metis append_eq_conv_conj append_take_drop_id)
  show ?case
  proof
    assume "contains q (c # cs)"
    then consider "take (length q) (c # cs) = q" | "contains q cs" by auto
    then show "\<exists>pre post. c # cs = pre @ q @ post"
    proof cases
      case 1
      with head obtain post where "c # cs = [] @ q @ post" by auto
      then show ?thesis by blast
    next
      case 2
      with Cons.IH obtain pre post where "cs = pre @ q @ post" by blast
      then have "c # cs = (c # pre) @ q @ post" by simp
      then show ?thesis by blast
    qed
  next
    assume "\<exists>pre post. c # cs = pre @ q @ post"
    then obtain pre post where eq: "c # cs = pre @ q @ post" by blast
    show "contains q (c # cs)"
    proof (cases pre)
      case Nil
      with eq have "\<exists>post. c # cs = q @ post" by auto
      with head have "take (length q) (c # cs) = q" by blast
      then show ?thesis by simp
    next
      case (Cons x pre')
      with eq have "cs = pre' @ q @ post" by simp
      with Cons.IH show ?thesis by auto
    qed
  qed
qed










end
